theory Spec2Isabelle
  imports Complex_Main "HOL-Library.AList"
begin

section \<open>Conventions\<close>

text \<open>
  A JavaScript \<^verbatim>\<open>number\<close> is modelled as a real number: the arithmetic of the
  source is read exactly, the rounding of IEEE doubles and NaN are not modelled.
  An object reference or a timer handle is an identifier under \<open>option\<close>; \<open>None\<close>
  is \<^verbatim>\<open>null\<close>, and every \<open>Some\<close> is truthy, as objects and the positive handles
  of \<^verbatim>\<open>setInterval\<close> are.
  A \<^verbatim>\<open>Record<string, number>\<close> is an association list in insertion order: a
  read is \<open>map_of\<close>, a write is \<open>AList.update\<close>, which replaces the value of a key
  in place and appends a new key at the end, as property assignment does.
\<close>

type_synonym ref = nat

type_synonym numRecord = "(string \<times> real) list"

text \<open>\<^verbatim>\<open>obj[key] || 0\<close>: a missing key reads \<^verbatim>\<open>undefined\<close>, which falls to 0; a
  stored 0 falls to 0 as well.\<close>

definition orZero :: "numRecord \<Rightarrow> string \<Rightarrow> real" where
  "orZero obj key = (case map_of obj key of None \<Rightarrow> 0 | Some v \<Rightarrow> v)"


section \<open>services/liveClient.ts: class LiveClient\<close>

record LiveClient =
  inputAudioContext :: "ref option"
  outputAudioContext :: "ref option"
  mediaStream :: "ref option"
  processor :: "ref option"
  source :: "ref option"
  nextStartTime :: real
  sessionPromise :: "ref option"
  currentSession :: "ref option"
  analyser :: "ref option"
  volumeInterval :: "ref option"

text \<open>The field initialisers of the class.\<close>

definition newLiveClient :: LiveClient where
  "newLiveClient = \<lparr> inputAudioContext = None, outputAudioContext = None,
     mediaStream = None, processor = None, source = None, nextStartTime = 0,
     sessionPromise = None, currentSession = None, analyser = None,
     volumeInterval = None \<rparr>"

subsection \<open>connect, startMonitoringAiVolume, startAudioInput\<close>

text \<open>The releasing calls made on the resources the client holds.\<close>

datatype release =
    ClearInterval ref
  | ProcessorDisconnect ref
  | SourceDisconnect ref
  | StopTracks ref
  | CloseContext ref

text \<open>
  What \<^verbatim>\<open>connect\<close> obtains from the browser and the SDK: the two audio contexts,
  the analyser, the handle of the metering timer, the microphone stream (\<open>None\<close>
  when \<^verbatim>\<open>getUserMedia\<close> throws), the session promise, and the session it
  resolves to (\<open>None\<close> when it rejects).
\<close>

record ConnectEnv =
  createdInputContext :: ref
  createdOutputContext :: ref
  createdAnalyser :: ref
  createdInterval :: ref
  userMedia :: "ref option"
  livePromise :: ref
  liveSession :: "ref option"

definition startMonitoringAiVolume :: "ref \<Rightarrow> LiveClient \<Rightarrow> LiveClient \<times> release list" where
  "startMonitoringAiVolume handle c =
    (c\<lparr>volumeInterval := Some handle\<rparr>,
     case volumeInterval c of Some old \<Rightarrow> [ClearInterval old] | None \<Rightarrow> [])"

text \<open>\<^verbatim>\<open>connect\<close> returns the state, the releasing calls made, and whether it
  returned normally; on a throw the fields assigned so far stay assigned, the
  error callback is called and the error rethrown.\<close>

definition connect :: "ConnectEnv \<Rightarrow> LiveClient \<Rightarrow> LiveClient \<times> release list \<times> bool" where
  "connect v c =
    (let c1 = c\<lparr>inputAudioContext := Some (createdInputContext v)\<rparr>;
         c2 = c1\<lparr>outputAudioContext := Some (createdOutputContext v)\<rparr>;
         c3 = c2\<lparr>analyser := Some (createdAnalyser v)\<rparr>;
         (c4, released) = startMonitoringAiVolume (createdInterval v) c3
     in case userMedia v of
          None \<Rightarrow> (c4, released, False)
        | Some stream \<Rightarrow>
           (let c5 = c4\<lparr>mediaStream := Some stream\<rparr>;
                c6 = c5\<lparr>sessionPromise := Some (livePromise v)\<rparr>
            in case liveSession v of
                 None \<Rightarrow> (c6, released, False)
               | Some session \<Rightarrow> (c6\<lparr>currentSession := Some session\<rparr>, released, True)))"

text \<open>\<^verbatim>\<open>handleOpen\<close> calls \<^verbatim>\<open>startAudioInput\<close>, which creates the media-stream
  source and the script processor when the input context and the stream exist.\<close>

definition startAudioInput :: "ref \<Rightarrow> ref \<Rightarrow> LiveClient \<Rightarrow> LiveClient" where
  "startAudioInput createdSource createdProcessor c =
    (if inputAudioContext c = None \<or> mediaStream c = None then c
     else c\<lparr>source := Some createdSource, processor := Some createdProcessor\<rparr>)"

subsection \<open>disconnect\<close>

text \<open>
  \<^verbatim>\<open>disconnect\<close> is a sequence of six guarded blocks, each releasing a resource
  and nulling its field, followed by two unconditional assignments. The function
  returns the new object state and the releasing calls made, in order. The two awaited
  \<^verbatim>\<open>close()\<close> calls are taken to resolve, as they do on a context that has not
  been closed before.
\<close>

definition disconnect :: "LiveClient \<Rightarrow> LiveClient \<times> release list" where
  "disconnect c =
    (let (c1, r1) = (case volumeInterval c of
                       Some h \<Rightarrow> (c\<lparr>volumeInterval := None\<rparr>, [ClearInterval h])
                     | None \<Rightarrow> (c, []));
         (c2, r2) = (case processor c1 of
                       Some p \<Rightarrow> (c1\<lparr>processor := None\<rparr>, [ProcessorDisconnect p])
                     | None \<Rightarrow> (c1, []));
         (c3, r3) = (case source c2 of
                       Some s \<Rightarrow> (c2\<lparr>source := None\<rparr>, [SourceDisconnect s])
                     | None \<Rightarrow> (c2, []));
         (c4, r4) = (case mediaStream c3 of
                       Some m \<Rightarrow> (c3\<lparr>mediaStream := None\<rparr>, [StopTracks m])
                     | None \<Rightarrow> (c3, []));
         (c5, r5) = (case inputAudioContext c4 of
                       Some a \<Rightarrow> (c4\<lparr>inputAudioContext := None\<rparr>, [CloseContext a])
                     | None \<Rightarrow> (c4, []));
         (c6, r6) = (case outputAudioContext c5 of
                       Some a \<Rightarrow> (c5\<lparr>outputAudioContext := None\<rparr>, [CloseContext a])
                     | None \<Rightarrow> (c5, []))
     in (c6\<lparr>currentSession := None, sessionPromise := None\<rparr>,
         r1 @ r2 @ r3 @ r4 @ r5 @ r6))"

subsection \<open>handleMessage\<close>

text \<open>
  What \<^verbatim>\<open>handleMessage\<close> reads of a \<^verbatim>\<open>LiveServerMessage\<close>:
  \<^verbatim>\<open>serverContent?.modelTurn?.parts?.[0]?.inlineData?.data\<close>, absent when any
  link of the chain is, and the truth value of \<^verbatim>\<open>serverContent?.interrupted\<close>.
\<close>

record LiveServerMessage =
  inlineData :: "string option"
  interrupted :: bool

text \<open>
  The \<^verbatim>\<open>AudioBuffer\<close> that the awaited \<^verbatim>\<open>decodeAudioData\<close> resolves to. The
  helper lives in \<^verbatim>\<open>utils/audioUtils\<close>, which is not among the sources, so the
  outcome of the call is an input of the model. Of the buffer only \<^verbatim>\<open>duration\<close>
  is read, which the Web Audio API defines as length over sample rate.
\<close>

record AudioBuffer =
  bufferLength :: nat
  sampleRate :: nat

definition duration :: "AudioBuffer \<Rightarrow> real" where
  "duration b = real (bufferLength b) / real (sampleRate b)"

text \<open>What one call reads from outside the object: the clock of the output
  context when the message arrives, and what the awaited decode settles to: a
  buffer, or \<open>None\<close> when the promise rejects.\<close>

record MessageEnv =
  currentTime :: real
  decoded :: "AudioBuffer option"

text \<open>The calls that leave the object: the two callbacks, and
  \<^verbatim>\<open>source.start(when)\<close> for a buffer of the given duration.\<close>

datatype event =
    AiSpeakingStart
  | AiSpeakingStop
  | SourceStart real real

text \<open>Where a call of the asynchronous handler stands: it has returned, it is
  suspended at its \<^verbatim>\<open>await\<close>, or it has thrown and its promise is rejected.\<close>

datatype callState = Returned | Awaiting | Rejected

text \<open>A string is truthy when it is present and not empty.\<close>

definition truthy :: "string option \<Rightarrow> bool" where
  "truthy d = (case d of None \<Rightarrow> False | Some s \<Rightarrow> s \<noteq> [])"

text \<open>The second block of the handler, the interruption, on the state and the
  events so far.\<close>

definition handleInterrupted ::
  "LiveServerMessage \<Rightarrow> LiveClient \<times> event list \<Rightarrow> LiveClient \<times> event list" where
  "handleInterrupted m st =
    (let (c, evs) = st in
     if interrupted m then (c\<lparr>nextStartTime := 0\<rparr>, evs @ [AiSpeakingStop])
     else (c, evs))"

text \<open>
  The part of the handler that runs synchronously with the message. When the
  audio block is entered, it calls the start callback, raises the cursor to the
  clock and suspends at the awaited decode. Otherwise it goes on to the
  interruption block and returns.
\<close>

definition startMessage ::
  "real \<Rightarrow> LiveClient \<Rightarrow> LiveServerMessage \<Rightarrow> LiveClient \<times> event list \<times> callState" where
  "startMessage now c m =
    (if truthy (inlineData m) \<and> outputAudioContext c \<noteq> None \<and> analyser c \<noteq> None then
       (c\<lparr>nextStartTime := max (nextStartTime c) now\<rparr>, [AiSpeakingStart], Awaiting)
     else
       let (c1, evs) = handleInterrupted m (c, [])
       in (c1, evs, Returned))"

text \<open>
  The rest of a suspended call, run on the state that the object has when the
  decode settles. A rejected decode is rethrown by the \<^verbatim>\<open>await\<close>: the handler has
  no \<^verbatim>\<open>try\<close>, so the call ends there. Otherwise the handler creates the source
  on the output context (a \<^verbatim>\<open>TypeError\<close> when the context has become null
  meanwhile), starts it at the cursor, advances the cursor by the duration, and
  goes on to the interruption block.
\<close>

definition resumeMessage ::
  "AudioBuffer option \<Rightarrow> LiveClient \<Rightarrow> LiveServerMessage \<Rightarrow>
     LiveClient \<times> event list \<times> callState" where
  "resumeMessage settled c m =
    (case settled of
       None \<Rightarrow> (c, [], Rejected)
     | Some audioBuffer \<Rightarrow>
        (if outputAudioContext c = None then (c, [], Rejected)
         else
           let evs = [SourceStart (nextStartTime c) (duration audioBuffer)];
               c1 = c\<lparr>nextStartTime := nextStartTime c + duration audioBuffer\<rparr>;
               (c2, evs2) = handleInterrupted m (c1, evs)
           in (c2, evs2, Returned)))"

text \<open>One call from its start to its end, when nothing else runs on the object
  while the decode is awaited: the state, the events of both parts, and how the
  call ended.\<close>

definition runMessage ::
  "MessageEnv \<Rightarrow> LiveClient \<Rightarrow> LiveServerMessage \<Rightarrow> LiveClient \<times> event list \<times> callState" where
  "runMessage e c m =
    (let (c1, evs1, st) = startMessage (currentTime e) c m
     in case st of
          Awaiting \<Rightarrow>
            (let (c2, evs2, st2) = resumeMessage (decoded e) c1 m
             in (c2, evs1 @ evs2, st2))
        | _ \<Rightarrow> (c1, evs1, st))"

definition handleMessage ::
  "MessageEnv \<Rightarrow> LiveClient \<Rightarrow> LiveServerMessage \<Rightarrow> LiveClient \<times> event list" where
  "handleMessage e c m = (let (c1, evs, st) = runMessage e c m in (c1, evs))"

text \<open>The listener that the handler registers on each source: when the buffer
  has ended, the stop callback fires if the clock has come within 0.1 of the
  cursor.\<close>

definition onEnded :: "real \<Rightarrow> LiveClient \<Rightarrow> event list" where
  "onEnded now c =
    (if outputAudioContext c \<noteq> None \<and> now \<ge> nextStartTime c - 0.1
     then [AiSpeakingStop] else [])"

text \<open>Messages handled one after the other, each call run to its end before the
  next, with its own clock reading and decode outcome; the events of all calls
  in order.\<close>

fun handleMessages ::
  "(MessageEnv \<times> LiveServerMessage) list \<Rightarrow> LiveClient \<Rightarrow> LiveClient \<times> event list list" where
  "handleMessages [] c = (c, [])"
| "handleMessages ((e, m) # rest) c =
     (let (c1, evs) = handleMessage e c m;
          (c2, evss) = handleMessages rest c1
      in (c2, evs # evss))"


section \<open>services/faceTracker.ts: class FaceTracker\<close>

definition TRACKING_FPS :: real where
  "TRACKING_FPS = 24"

definition FRAME_INTERVAL :: real where
  "FRAME_INTERVAL = 1000 / TRACKING_FPS"

definition SMOOTHING_FACTOR :: real where
  "SMOOTHING_FACTOR = 0.7"

definition lerp :: "real \<Rightarrow> real \<Rightarrow> real \<Rightarrow> real" where
  "lerp start end amt = (1 - amt) * start + amt * end"

text \<open>An object \<^verbatim>\<open>{ x, y, z }\<close>; the fields are named \<open>vx\<close>, \<open>vy\<close>, \<open>vz\<close> here.\<close>

record vec3 =
  vx :: real
  vy :: real
  vz :: real

definition zeroVec :: vec3 where
  "zeroVec = \<lparr> vx = 0, vy = 0, vz = 0 \<rparr>"

text \<open>
  The fields of the class, without the leading underscore of the private ones.
  \<open>srcObject\<close> is the \<^verbatim>\<open>srcObject\<close> of the video element held in \<open>video\<close>.
  The pooled \<^verbatim>\<open>_matrix\<close> and \<^verbatim>\<open>_euler\<close> are scratch space of one call and are
  left out.
\<close>

record FaceTracker =
  faceLandmarker :: "ref option"
  video :: "ref option"
  srcObject :: "ref option"
  lastVideoTime :: real
  lastTrackingTime :: real
  isRunning :: bool
  targetBlendshapes :: numRecord
  currentBlendshapes :: numRecord
  neutralBlendshapes :: numRecord
  neutralRotation :: vec3
  neutralPosition :: vec3
  isCalibrated :: bool
  targetRotation :: vec3
  targetPosition :: vec3
  rotation :: vec3
  position :: vec3

definition newFaceTracker :: FaceTracker where
  "newFaceTracker = \<lparr> faceLandmarker = None, video = None, srcObject = None,
     lastVideoTime = - 1, lastTrackingTime = 0, isRunning = False,
     targetBlendshapes = [], currentBlendshapes = [], neutralBlendshapes = [],
     neutralRotation = zeroVec, neutralPosition = zeroVec, isCalibrated = False,
     targetRotation = zeroVec, targetPosition = zeroVec,
     rotation = zeroVec, position = zeroVec \<rparr>"

subsection \<open>initialize, start, stop\<close>

datatype trackerError = ModelInitError | DeviceAccessError

text \<open>\<^verbatim>\<open>initialize\<close> returns at once when the model is loaded; otherwise the
  loader yields a model (\<open>Some\<close>) or throws (\<open>None\<close>), and the error is rethrown.\<close>

definition initialize :: "ref option \<Rightarrow> FaceTracker \<Rightarrow> FaceTracker \<times> trackerError option" where
  "initialize created t =
    (if faceLandmarker t \<noteq> None then (t, None)
     else case created of
            None \<Rightarrow> (t, Some ModelInitError)
          | Some f \<Rightarrow> (t\<lparr>faceLandmarker := Some f\<rparr>, None))"

text \<open>\<^verbatim>\<open>start\<close>: load the model if needed, open the camera (\<open>stream\<close> is \<open>None\<close>
  when \<^verbatim>\<open>getUserMedia\<close> throws), keep the video element and give it the stream.
  Running begins later, in the \<^verbatim>\<open>loadeddata\<close> listener.\<close>

definition start ::
  "ref option \<Rightarrow> ref option \<Rightarrow> ref \<Rightarrow> FaceTracker \<Rightarrow> FaceTracker \<times> trackerError option" where
  "start created stream videoElement t =
    (let (t1, err) = (if faceLandmarker t = None then initialize created t else (t, None))
     in case err of
          Some e \<Rightarrow> (t1, Some e)
        | None \<Rightarrow>
           (case stream of
              None \<Rightarrow> (t1, Some DeviceAccessError)
            | Some st \<Rightarrow> (t1\<lparr>video := Some videoElement, srcObject := Some st\<rparr>, None)))"

definition stop :: "FaceTracker \<Rightarrow> FaceTracker" where
  "stop t =
    (let t1 = t\<lparr>isRunning := False\<rparr>;
         t2 = (if video t1 \<noteq> None \<and> srcObject t1 \<noteq> None
               then t1\<lparr>srcObject := None\<rparr> else t1)
     in t2\<lparr>isCalibrated := False, neutralBlendshapes := []\<rparr>)"

subsection \<open>calibrate and the calibrated views\<close>

definition calibrate :: "FaceTracker \<Rightarrow> FaceTracker" where
  "calibrate t =
    (if \<not> isRunning t then t
     else t\<lparr>neutralBlendshapes := currentBlendshapes t,
            neutralRotation := rotation t,
            neutralPosition := position t,
            isCalibrated := True\<rparr>)"

definition getCalibratedRotation :: "FaceTracker \<Rightarrow> vec3" where
  "getCalibratedRotation t =
    (if \<not> isCalibrated t then rotation t
     else \<lparr> vx = vx (rotation t) - vx (neutralRotation t),
            vy = vy (rotation t) - vy (neutralRotation t),
            vz = vz (rotation t) - vz (neutralRotation t) \<rparr>)"

definition getCalibratedPosition :: "FaceTracker \<Rightarrow> vec3" where
  "getCalibratedPosition t =
    (if \<not> isCalibrated t then \<lparr> vx = 0, vy = 0, vz = 0 \<rparr>
     else \<lparr> vx = vx (position t) - vx (neutralPosition t),
            vy = vy (position t) - vy (neutralPosition t),
            vz = vz (position t) - vz (neutralPosition t) \<rparr>)"

text \<open>The body of the \<^verbatim>\<open>for (const key in this.currentBlendshapes)\<close> loop of
  \<^verbatim>\<open>getCalibratedBlendshapes\<close>: one assignment to \<^verbatim>\<open>calibrated[key]\<close>.\<close>

definition calibrateKey :: "FaceTracker \<Rightarrow> string \<Rightarrow> numRecord \<Rightarrow> numRecord" where
  "calibrateKey t key calibrated =
    (let current = orZero (currentBlendshapes t) key;
         neutral = orZero (neutralBlendshapes t) key;
         val = current - neutral;
         val = (if val < 0 then 0 else val)
     in AList.update key (val * 1.5) calibrated)"

definition getCalibratedBlendshapes :: "FaceTracker \<Rightarrow> numRecord" where
  "getCalibratedBlendshapes t =
    (if \<not> isCalibrated t then currentBlendshapes t
     else fold (calibrateKey t) (map fst (currentBlendshapes t)) [])"

subsection \<open>predict and updateSmoothing\<close>

text \<open>The body of the \<^verbatim>\<open>for (const key in this.targetBlendshapes)\<close> loop of
  \<^verbatim>\<open>updateSmoothing\<close>, on the current blendshapes.\<close>

definition smoothKey :: "numRecord \<Rightarrow> string \<Rightarrow> numRecord \<Rightarrow> numRecord" where
  "smoothKey targets key currents =
    (let target = orZero targets key;
         current = orZero currents key;
         cleanTarget = (if target < 0.05 then 0 else target)
     in AList.update key (lerp current cleanTarget SMOOTHING_FACTOR) currents)"

definition lerpVec :: "vec3 \<Rightarrow> vec3 \<Rightarrow> vec3" where
  "lerpVec cur tgt =
    \<lparr> vx = lerp (vx cur) (vx tgt) SMOOTHING_FACTOR,
      vy = lerp (vy cur) (vy tgt) SMOOTHING_FACTOR,
      vz = lerp (vz cur) (vz tgt) SMOOTHING_FACTOR \<rparr>"

definition updateSmoothing :: "FaceTracker \<Rightarrow> FaceTracker" where
  "updateSmoothing t =
    t\<lparr>rotation := lerpVec (rotation t) (targetRotation t),
      position := lerpVec (position t) (targetPosition t),
      currentBlendshapes :=
        fold (smoothKey (targetBlendshapes t)) (map fst (targetBlendshapes t))
             (currentBlendshapes t)\<rparr>"

text \<open>
  One facial transformation matrix of a detection result: the Euler angles that
  \<^verbatim>\<open>THREE.Euler.setFromRotationMatrix\<close> extracts from it (the library is outside
  the sources, so the angles are an input), and the entries 12, 13 and 14 of its
  data.
\<close>

record FacialMatrix =
  euler :: vec3
  data12 :: real
  data13 :: real
  data14 :: real

text \<open>The result of \<^verbatim>\<open>detectForVideo\<close>: the category lists
  (\<^verbatim>\<open>categoryName\<close>, \<^verbatim>\<open>score\<close>) of the faces and the matrices; either array may
  be missing.\<close>

record DetectResult =
  faceBlendshapes :: "numRecord list option"
  facialTransformationMatrixes :: "FacialMatrix list option"

text \<open>What one \<^verbatim>\<open>predict\<close> reads from outside the object: \<^verbatim>\<open>performance.now()\<close>,
  the state of the video element, and the detection (\<open>None\<close> when the detector
  throws).\<close>

record PredictEnv =
  perfNow :: real
  videoCurrentTime :: real
  videoPaused :: bool
  videoEnded :: bool
  detection :: "DetectResult option"

definition storeShapes :: "numRecord \<Rightarrow> numRecord \<Rightarrow> numRecord" where
  "storeShapes shapes targets =
     fold (\<lambda>shape acc. AList.update (fst shape) (snd shape) acc) shapes targets"

text \<open>The \<^verbatim>\<open>try\<close> block: the detection and the writes to the targets. A throw
  of the detector is caught and leaves the targets as they were.\<close>

definition detectInto :: "PredictEnv \<Rightarrow> FaceTracker \<Rightarrow> FaceTracker" where
  "detectInto e t =
    (case detection e of
       None \<Rightarrow> t
     | Some results \<Rightarrow>
        (case faceBlendshapes results of
           Some (shapes # _) \<Rightarrow>
             (let t1 = t\<lparr>targetBlendshapes := storeShapes shapes (targetBlendshapes t)\<rparr>
              in case facialTransformationMatrixes results of
                   Some (m # _) \<Rightarrow>
                     t1\<lparr>targetRotation :=
                          \<lparr> vx = vx (euler m), vy = - vy (euler m), vz = - vz (euler m) \<rparr>,
                        targetPosition :=
                          \<lparr> vx = - data12 m, vy = - data13 m, vz = - data14 m \<rparr>\<rparr>
                 | _ \<Rightarrow> t1)
         | _ \<Rightarrow> t))"

text \<open>The throttle of the tracking loop: enough time since the last tracked
  frame, and a video frame that has advanced on a playing video.\<close>

definition trackingDue :: "PredictEnv \<Rightarrow> FaceTracker \<Rightarrow> bool" where
  "trackingDue e t =
    (perfNow e - lastTrackingTime t \<ge> FRAME_INTERVAL
     \<and> videoCurrentTime e \<noteq> lastVideoTime t \<and> \<not> videoPaused e \<and> \<not> videoEnded e)"

definition trackingLoop :: "PredictEnv \<Rightarrow> FaceTracker \<Rightarrow> FaceTracker" where
  "trackingLoop e t =
    (if perfNow e - lastTrackingTime t \<ge> FRAME_INTERVAL then
       if videoCurrentTime e \<noteq> lastVideoTime t \<and> \<not> videoPaused e \<and> \<not> videoEnded e then
         detectInto e (t\<lparr>lastVideoTime := videoCurrentTime e, lastTrackingTime := perfNow e\<rparr>)
       else t
     else t)"

text \<open>\<^verbatim>\<open>predict\<close> returns the new state and whether it has asked for another
  animation frame.\<close>

definition predict :: "PredictEnv \<Rightarrow> FaceTracker \<Rightarrow> FaceTracker \<times> bool" where
  "predict e t =
    (if \<not> isRunning t \<or> faceLandmarker t = None \<or> video t = None then (t, False)
     else let t1 = trackingLoop e t;
              t2 = updateSmoothing t1
          in (t2, isRunning t2))"

text \<open>The \<^verbatim>\<open>loadeddata\<close> listener installed by \<^verbatim>\<open>start\<close>.\<close>

definition onLoadedData :: "PredictEnv \<Rightarrow> FaceTracker \<Rightarrow> FaceTracker" where
  "onLoadedData e t = fst (predict e (t\<lparr>isRunning := True\<rparr>))"

text \<open>The calls that reach a tracker, and the tracker after a sequence of them
  on a new object.\<close>

datatype trackerCall =
    Start "ref option" "ref option" ref
  | LoadedData PredictEnv
  | AnimationFrame PredictEnv
  | Calibrate
  | Stop

fun call :: "trackerCall \<Rightarrow> FaceTracker \<Rightarrow> FaceTracker" where
  "call (Start created stream videoElement) t = fst (start created stream videoElement t)"
| "call (LoadedData e) t = onLoadedData e t"
| "call (AnimationFrame e) t = fst (predict e t)"
| "call Calibrate t = calibrate t"
| "call Stop t = stop t"

definition run :: "trackerCall list \<Rightarrow> FaceTracker" where
  "run calls = fold call calls newFaceTracker"


section \<open>components/AvatarDisplay.tsx: the expressions set by animate\<close>

text \<open>
  Of one \<^verbatim>\<open>animate\<close> frame on a loaded avatar (the body under
  \<^verbatim>\<open>if (vrmRef.current)\<close>) the model keeps the calls
  \<^verbatim>\<open>em.setValue(name, value)\<close>, in the order they are made; the bone rotations
  and the blink timer are left out. The expression manager belongs to the
  avatar library, so what \<^verbatim>\<open>em.getValue\<close> returns during the frame is an
  input. No name is read after it has been written in the same frame.
\<close>

type_synonym setValue = "string \<times> real"

record FrameEnv =
  cameraActive :: bool
  currentIsAiTalking :: bool
  currentAiVolume :: real
  getValue :: "string \<Rightarrow> real"
  isBlinking :: bool
  dateNow :: real

text \<open>\<^verbatim>\<open>THREE.MathUtils.lerp(x, y, t)\<close> is \<open>(1 - t) * x + t * y\<close>, which is \<open>lerp\<close>.\<close>

definition handleAutoBlink :: "FrameEnv \<Rightarrow> setValue list" where
  "handleAutoBlink f =
    (if isBlinking f then
       let blinkValue = sin (dateNow f / 50) * 2
       in if blinkValue < 0 then [(''blink'', 0)]
          else [(''blink'', min 1 blinkValue)]
     else [])"

definition autoMode :: "FrameEnv \<Rightarrow> setValue list" where
  "autoMode f =
    handleAutoBlink f @
    (if \<not> currentIsAiTalking f then
       (if getValue f ''happy'' > 0 then [(''happy'', getValue f ''happy'' * 0.9)] else []) @
       (if getValue f ''angry'' > 0 then [(''angry'', getValue f ''angry'' * 0.9)] else [])
     else [])"

text \<open>The expression logic of tracking mode on the calibrated blendshapes \<open>s\<close>;
  \<^verbatim>\<open>get(name)\<close> is \<^verbatim>\<open>s[name] || 0\<close>, and the whole block runs only when \<open>s\<close>
  has a key.\<close>

definition trackingMode :: "FrameEnv \<Rightarrow> numRecord \<Rightarrow> setValue list" where
  "trackingMode f s =
    (if length (map fst s) > 0 then
       let blinkL = orZero s ''eyeBlinkLeft'';
           blinkR = orZero s ''eyeBlinkRight'';
           blinkL = (if blinkL > 0.4 then 1.0 else blinkL);
           blinkR = (if blinkR > 0.4 then 1.0 else blinkR);
           smileRaw = (orZero s ''mouthSmileLeft'' + orZero s ''mouthSmileRight'') / 2;
           happy = min 1 (smileRaw * 1.5);
           angryRaw = (orZero s ''browDownLeft'' + orZero s ''browDownRight'') / 2;
           angry = min 1 (angryRaw * 1.5) * (1 - happy)
       in [(''blinkLeft'', blinkL), (''blinkRight'', blinkR), (''happy'', happy),
           (''angry'', angry), (''sad'', orZero s ''browInnerUp'' * (1 - happy)),
           (''surprised'', orZero s ''browOuterUpLeft'' + orZero s ''browOuterUpRight'')] @
          (if \<not> currentIsAiTalking f then
             let jawOpen = orZero s ''jawOpen'';
                 jawOpen = (if happy > 0.2 then 0 else min 1 (jawOpen * 1.5));
                 pucker = orZero s ''mouthPucker''
             in [(''aa'', jawOpen),
                 (''ou'', if pucker > 0.4 \<and> happy < 0.3 then min 1 (pucker * 1.5) else 0)]
           else [])
     else [])"

definition lipSync :: "FrameEnv \<Rightarrow> setValue list" where
  "lipSync f =
    (if currentIsAiTalking f then
       let openAmount = min 1.0 (currentAiVolume f * 4.0);
           currentAa = getValue f ''aa''
       in [(''ou'', 0), (''oh'', 0), (''aa'', lerp currentAa openAmount 0.5)]
     else if \<not> cameraActive f then
       let currentAa = getValue f ''aa''
       in if currentAa > 0.01 then [(''aa'', currentAa * 0.8)] else []
     else [])"

definition animate :: "FrameEnv \<Rightarrow> FaceTracker \<Rightarrow> setValue list" where
  "animate f tracker =
    (if \<not> cameraActive f then autoMode f
     else trackingMode f (getCalibratedBlendshapes tracker))
    @ lipSync f"

text \<open>The values that one frame sets for one expression, in order.\<close>

definition valuesSet :: "string \<Rightarrow> setValue list \<Rightarrow> real list" where
  "valuesSet name calls = map snd (filter (\<lambda>c. fst c = name) calls)"


section \<open>Example inputs\<close>

text \<open>States and inputs at which the properties below are evaluated.\<close>

definition connectedClient :: LiveClient where
  "connectedClient =
     startAudioInput 7 8
       (fst (connect \<lparr> createdInputContext = 1, createdOutputContext = 2, createdAnalyser = 3,
                       createdInterval = 4, userMedia = Some 5, livePromise = 6,
                       liveSession = Some 9 \<rparr> newLiveClient))"

definition audioMessage :: LiveServerMessage where
  "audioMessage = \<lparr> inlineData = Some ''AAAA'', interrupted = False \<rparr>"

definition interruptedMessage :: LiveServerMessage where
  "interruptedMessage = \<lparr> inlineData = None, interrupted = True \<rparr>"

text \<open>A clock reading and a decoded buffer of the given number of frames at
  24 kHz: 12000 frames last 0.5 s, 7200 frames 0.3 s.\<close>

definition chunkAt :: "real \<Rightarrow> nat \<Rightarrow> MessageEnv" where
  "chunkAt now frames =
     \<lparr> currentTime = now,
       decoded = Some \<lparr> bufferLength = frames, sampleRate = 24000 \<rparr> \<rparr>"

text \<open>A clock reading with a decode that rejects, and a message that carries
  both a payload and the interrupted flag.\<close>

definition rejectedAt :: "real \<Rightarrow> MessageEnv" where
  "rejectedAt now = \<lparr> currentTime = now, decoded = None \<rparr>"

definition payloadAndFlag :: LiveServerMessage where
  "payloadAndFlag = \<lparr> inlineData = Some ''AAAA'', interrupted = True \<rparr>"

text \<open>A tick at the given clock and video time on a playing video, where the
  detector sees one face with the given scores and a head turned by 1 about x.\<close>

definition frameAt :: "real \<Rightarrow> real \<Rightarrow> numRecord \<Rightarrow> PredictEnv" where
  "frameAt now videoTime shapes =
    \<lparr> perfNow = now, videoCurrentTime = videoTime, videoPaused = False, videoEnded = False,
      detection = Some
        \<lparr> faceBlendshapes = Some [shapes],
          facialTransformationMatrixes =
            Some [\<lparr> euler = \<lparr> vx = 1, vy = 0, vz = 0 \<rparr>,
                    data12 = 0, data13 = 0, data14 = 0 \<rparr>] \<rparr> \<rparr>"

text \<open>A tick on which the detector sees no face.\<close>

definition noFaceFrame :: PredictEnv where
  "noFaceFrame =
    \<lparr> perfNow = 100, videoCurrentTime = 0, videoPaused = False, videoEnded = False,
      detection = Some \<lparr> faceBlendshapes = Some [], facialTransformationMatrixes = Some [] \<rparr> \<rparr>"

text \<open>Three ticks on a neutral face: the first tracked one, one 10 ms later,
  which the throttle skips, and a second tracked one with other scores. Two
  ticks on a smiling face with an open jaw, the second one throttled.\<close>

definition firstFrame :: PredictEnv where
  "firstFrame = frameAt 100 0 [(''jawOpen'', 2 / 7), (''eyeBlinkLeft'', 0)]"

definition throttledFrame :: PredictEnv where
  "throttledFrame = frameAt 110 0.04 [(''jawOpen'', 2 / 7), (''eyeBlinkLeft'', 0)]"

definition secondFrame :: PredictEnv where
  "secondFrame = frameAt 150 0.04
     [(''jawOpen'', 27 / 35), (''eyeBlinkLeft'', 1), (''browInnerUp'', 0.5)]"

definition smileFrame :: "real \<Rightarrow> real \<Rightarrow> PredictEnv" where
  "smileFrame now videoTime = frameAt now videoTime
     [(''mouthSmileLeft'', 20 / 91), (''mouthSmileRight'', 20 / 91), (''jawOpen'', 90 / 91)]"

text \<open>A tracker after its first tracked frame; the same tracker calibrated and
  after a second tracked frame; a tracker after a tracked and a throttled tick
  on the smiling face; a running tracker that has seen no face.\<close>

definition trackedTracker :: FaceTracker where
  "trackedTracker = run [Start (Some 1) (Some 2) 3, LoadedData firstFrame]"

definition calibratedTracker :: FaceTracker where
  "calibratedTracker =
     run [Start (Some 1) (Some 2) 3, LoadedData firstFrame, Calibrate,
          AnimationFrame secondFrame]"

definition smilingTracker :: FaceTracker where
  "smilingTracker =
     run [Start (Some 1) (Some 2) 3, LoadedData (smileFrame 100 0),
          AnimationFrame (smileFrame 110 0.04)]"

definition facelessTracker :: FaceTracker where
  "facelessTracker = run [Start (Some 1) (Some 2) 3, LoadedData noFaceFrame]"

text \<open>A frame in tracking mode with the AI silent, on an avatar whose
  expressions all stand at 0.5.\<close>

definition trackingFrame :: FrameEnv where
  "trackingFrame = \<lparr> cameraActive = True, currentIsAiTalking = False, currentAiVolume = 0,
     getValue = (\<lambda>name. 0.5), isBlinking = False, dateNow = 0 \<rparr>"


section \<open>Auxiliary facts\<close>

lemma duration_nonneg: "0 \<le> duration b"
  by (simp add: duration_def)

lemma connectedClient_value:
  "connectedClient =
    \<lparr> inputAudioContext = Some 1, outputAudioContext = Some 2, mediaStream = Some 5,
      processor = Some 8, source = Some 7, nextStartTime = 0, sessionPromise = Some 6,
      currentSession = Some 9, analyser = Some 3, volumeInterval = Some 4 \<rparr>"
  by (simp add: connectedClient_def connect_def startMonitoringAiVolume_def
      startAudioInput_def newLiveClient_def)

lemma trackedTracker_value:
  "trackedTracker =
    \<lparr> faceLandmarker = Some 1, video = Some 3, srcObject = Some 2,
      lastVideoTime = 0, lastTrackingTime = 100, isRunning = True,
      targetBlendshapes = [(''jawOpen'', 2 / 7), (''eyeBlinkLeft'', 0)],
      currentBlendshapes = [(''jawOpen'', 0.2), (''eyeBlinkLeft'', 0)],
      neutralBlendshapes = [], neutralRotation = \<lparr> vx = 0, vy = 0, vz = 0 \<rparr>,
      neutralPosition = \<lparr> vx = 0, vy = 0, vz = 0 \<rparr>, isCalibrated = False,
      targetRotation = \<lparr> vx = 1, vy = 0, vz = 0 \<rparr>,
      targetPosition = \<lparr> vx = 0, vy = 0, vz = 0 \<rparr>,
      rotation = \<lparr> vx = 0.7, vy = 0, vz = 0 \<rparr>,
      position = \<lparr> vx = 0, vy = 0, vz = 0 \<rparr> \<rparr>"
  by (simp add: trackedTracker_def firstFrame_def run_def start_def initialize_def onLoadedData_def predict_def
      newFaceTracker_def trackingLoop_def detectInto_def frameAt_def
      FRAME_INTERVAL_def TRACKING_FPS_def storeShapes_def updateSmoothing_def lerpVec_def
      lerp_def smoothKey_def orZero_def SMOOTHING_FACTOR_def zeroVec_def Let_def)

lemma calibratedTracker_value:
  "calibratedTracker =
    \<lparr> faceLandmarker = Some 1, video = Some 3, srcObject = Some 2,
      lastVideoTime = 0.04, lastTrackingTime = 150, isRunning = True,
      targetBlendshapes = [(''jawOpen'', 27 / 35), (''eyeBlinkLeft'', 1), (''browInnerUp'', 0.5)],
      currentBlendshapes = [(''jawOpen'', 0.6), (''eyeBlinkLeft'', 0.7), (''browInnerUp'', 0.35)],
      neutralBlendshapes = [(''jawOpen'', 0.2), (''eyeBlinkLeft'', 0)],
      neutralRotation = \<lparr> vx = 0.7, vy = 0, vz = 0 \<rparr>,
      neutralPosition = \<lparr> vx = 0, vy = 0, vz = 0 \<rparr>, isCalibrated = True,
      targetRotation = \<lparr> vx = 1, vy = 0, vz = 0 \<rparr>,
      targetPosition = \<lparr> vx = 0, vy = 0, vz = 0 \<rparr>,
      rotation = \<lparr> vx = 0.91, vy = 0, vz = 0 \<rparr>,
      position = \<lparr> vx = 0, vy = 0, vz = 0 \<rparr> \<rparr>"
  by (simp add: calibratedTracker_def firstFrame_def secondFrame_def calibrate_def run_def start_def initialize_def onLoadedData_def predict_def
      newFaceTracker_def trackingLoop_def detectInto_def frameAt_def
      FRAME_INTERVAL_def TRACKING_FPS_def storeShapes_def updateSmoothing_def lerpVec_def
      lerp_def smoothKey_def orZero_def SMOOTHING_FACTOR_def zeroVec_def Let_def)

lemma smilingTracker_shapes:
  "currentBlendshapes smilingTracker =
     [(''mouthSmileLeft'', 0.2), (''mouthSmileRight'', 0.2), (''jawOpen'', 0.9)]
   \<and> \<not> isCalibrated smilingTracker"
  by (simp add: smilingTracker_def smileFrame_def run_def start_def initialize_def onLoadedData_def predict_def
      newFaceTracker_def trackingLoop_def detectInto_def frameAt_def
      FRAME_INTERVAL_def TRACKING_FPS_def storeShapes_def updateSmoothing_def lerpVec_def
      lerp_def smoothKey_def orZero_def SMOOTHING_FACTOR_def zeroVec_def Let_def)

lemma facelessTracker_shapes:
  "currentBlendshapes facelessTracker = [] \<and> \<not> isCalibrated facelessTracker
   \<and> isRunning facelessTracker"
  by (simp add: facelessTracker_def noFaceFrame_def run_def start_def initialize_def
      onLoadedData_def predict_def newFaceTracker_def trackingLoop_def detectInto_def
      FRAME_INTERVAL_def TRACKING_FPS_def updateSmoothing_def Let_def)

lemma map_of_fold_calibrateKey:
  "map_of (fold (calibrateKey t) ks acc) k =
     (if k \<in> set ks
      then Some (max 0 (orZero (currentBlendshapes t) k - orZero (neutralBlendshapes t) k) * 1.5)
      else map_of acc k)"
  by (induction ks arbitrary: acc) (auto simp: calibrateKey_def Let_def update_conv' max_def)

lemma predict_flags:
  "isRunning (fst (predict e t)) = isRunning t \<and> isCalibrated (fst (predict e t)) = isCalibrated t"
  by (simp add: predict_def trackingLoop_def detectInto_def updateSmoothing_def Let_def
      split: option.splits list.splits)

lemma start_flags:
  "isRunning (fst (start a b v t)) = isRunning t \<and> isCalibrated (fst (start a b v t)) = isCalibrated t"
  by (simp add: start_def initialize_def split: option.splits prod.splits)

lemma call_keeps_calibrated_running:
  "(isCalibrated t \<longrightarrow> isRunning t) \<Longrightarrow> isCalibrated (call c t) \<longrightarrow> isRunning (call c t)"
  by (cases c) (auto simp add: predict_flags start_flags onLoadedData_def stop_def calibrate_def Let_def)

lemma fold_call_keeps_calibrated_running:
  "(isCalibrated t \<longrightarrow> isRunning t) \<Longrightarrow>
     isCalibrated (fold call calls t) \<longrightarrow> isRunning (fold call calls t)"
proof (induction calls arbitrary: t)
  case Nil
  then show ?case by simp
next
  case (Cons c calls)
  from Cons.prems have "isCalibrated (call c t) \<longrightarrow> isRunning (call c t)"
    by (rule call_keeps_calibrated_running)
  then show ?case using Cons.IH [of "call c t"] by simp
qed

lemma run_calibrated_running: "isCalibrated (run calls) \<longrightarrow> isRunning (run calls)"
  unfolding run_def by (rule fold_call_keeps_calibrated_running) (simp add: newFaceTracker_def)

lemma lerp_iterated: "((\<lambda>state. lerp state 1 SMOOTHING_FACTOR) ^^ n) 0 = 1 - (3 / 10) ^ n"
  by (induction n) (simp_all add: lerp_def SMOOTHING_FACTOR_def algebra_simps)

lemma updateSmoothing_iterated_rotation:
  "targetRotation ((updateSmoothing ^^ n) t) = targetRotation t
   \<and> vx (rotation ((updateSmoothing ^^ n) t)) =
       ((\<lambda>state. lerp state (vx (targetRotation t)) SMOOTHING_FACTOR) ^^ n) (vx (rotation t))"
  by (induction n) (simp_all add: updateSmoothing_def lerpVec_def)

lemma updateSmoothing_iterated_shape:
  "targetBlendshapes t = [(key, 1)] \<Longrightarrow>
   targetBlendshapes ((updateSmoothing ^^ n) t) = [(key, 1)]
   \<and> orZero (currentBlendshapes ((updateSmoothing ^^ n) t)) key =
       ((\<lambda>state. lerp state 1 SMOOTHING_FACTOR) ^^ n) (orZero (currentBlendshapes t) key)"
  by (induction n) (simp_all add: updateSmoothing_def smoothKey_def orZero_def update_conv' Let_def)

lemma handleMessage_cursor:
  assumes quiet: "\<not> interrupted m"
  shows "nextStartTime c \<le> nextStartTime (fst (handleMessage e c m))"
proof (cases "decoded e")
  case None
  with quiet show ?thesis
    by (simp add: handleMessage_def runMessage_def startMessage_def resumeMessage_def
        handleInterrupted_def Let_def)
next
  case (Some b)
  with quiet duration_nonneg [of b] show ?thesis
    by (auto simp add: handleMessage_def runMessage_def startMessage_def resumeMessage_def
        handleInterrupted_def Let_def max_def)
qed

lemma handleMessages_monotone:
  "(\<forall>em \<in> set ems. \<not> interrupted (snd em)) \<Longrightarrow>
     nextStartTime c \<le> nextStartTime (fst (handleMessages ems c))"
proof (induction ems arbitrary: c)
  case Nil
  then show ?case by simp
next
  case (Cons em ems)
  obtain e m where em: "em = (e, m)" by (cases em)
  from Cons.prems em have quiet: "\<not> interrupted m" by simp
  have step: "nextStartTime c \<le> nextStartTime (fst (handleMessage e c m))"
    using quiet by (rule handleMessage_cursor)
  have rest: "nextStartTime (fst (handleMessage e c m))
      \<le> nextStartTime (fst (handleMessages ems (fst (handleMessage e c m))))"
    using Cons.IH Cons.prems by simp
  have unfold: "fst (handleMessages (em # ems) c) =
      fst (handleMessages ems (fst (handleMessage e c m)))"
    by (simp add: em split: prod.splits)
  show ?case using step rest unfold by simp
qed


section \<open>Properties of the audio engine\<close>

text \<open>
  C2, as stated, fails. After \<^verbatim>\<open>disconnect\<close>, which nulls the output context and
  leaves the session open, a payload that arrives at clock 1 is dropped: no
  event, and the cursor stays at 0 instead of going to 1.5. On the connected
  client, a payload whose decode rejects raises the cursor to the clock and
  emits the start callback, and nothing is scheduled.
\<close>

theorem playback_dropped_counterexample:
  "truthy (inlineData audioMessage)
   \<and> outputAudioContext (fst (disconnect connectedClient)) = None
   \<and> nextStartTime (fst (disconnect connectedClient)) = 0
   \<and> handleMessage (chunkAt 1 12000) (fst (disconnect connectedClient)) audioMessage
       = (fst (disconnect connectedClient), [])
   \<and> handleMessage (rejectedAt 1) connectedClient audioMessage
       = (connectedClient\<lparr>nextStartTime := 1\<rparr>, [AiSpeakingStart])"
  by (simp add: handleMessage_def runMessage_def startMessage_def resumeMessage_def
      handleInterrupted_def Let_def
      chunkAt_def audioMessage_def connectedClient_value truthy_def duration_def rejectedAt_def disconnect_def)

text \<open>
  C2, amended. For every inbound message with a non-empty audio payload that
  arrives while the output context and the analyser exist, the handler emits
  the start callback and stores \<open>startAt = max nextStartTime currentTime\<close> in the
  cursor before it awaits the decode. When the decode resolves, with no other
  handler having run meanwhile, the buffer is scheduled at \<open>startAt\<close> and the
  cursor advances to \<open>startAt + duration\<close>; if the same message carries the
  interrupted flag, the cursor is then reset to 0. A payload that is empty, or
  that arrives while the output context or the analyser is null, is dropped:
  the call is the interruption block alone. Two chunks of 0.5 s and 0.3 s
  arriving with the clock at 0 are scheduled at 0 and at 0.5, and the cursor
  ends at 0.8.
\<close>

theorem playback_schedule:
  "(truthy (inlineData m) \<and> outputAudioContext c \<noteq> None \<and> analyser c \<noteq> None \<longrightarrow>
      startMessage (currentTime e) c m =
        (c\<lparr>nextStartTime := max (nextStartTime c) (currentTime e)\<rparr>, [AiSpeakingStart], Awaiting)
      \<and> (decoded e = Some b \<longrightarrow>
           snd (handleMessage e c m) =
             [AiSpeakingStart, SourceStart (max (nextStartTime c) (currentTime e)) (duration b)]
             @ (if interrupted m then [AiSpeakingStop] else [])
           \<and> nextStartTime (fst (handleMessage e c m)) =
               (if interrupted m then 0
                else max (nextStartTime c) (currentTime e) + duration b)))
   \<and> (\<not> (truthy (inlineData m) \<and> outputAudioContext c \<noteq> None \<and> analyser c \<noteq> None) \<longrightarrow>
        handleMessage e c m = handleInterrupted m (c, []))
   \<and> handleMessages [(chunkAt 0 12000, audioMessage), (chunkAt 0 7200, audioMessage)]
        connectedClient =
      (connectedClient\<lparr>nextStartTime := 0.8\<rparr>,
       [[AiSpeakingStart, SourceStart 0 0.5], [AiSpeakingStart, SourceStart 0.5 0.3]])"
proof -
  have example:
    "handleMessages [(chunkAt 0 12000, audioMessage), (chunkAt 0 7200, audioMessage)]
        connectedClient =
      (connectedClient\<lparr>nextStartTime := 0.8\<rparr>,
       [[AiSpeakingStart, SourceStart 0 0.5], [AiSpeakingStart, SourceStart 0.5 0.3]])"
    by (simp add: handleMessage_def runMessage_def startMessage_def resumeMessage_def
      handleInterrupted_def Let_def
        chunkAt_def audioMessage_def connectedClient_value truthy_def duration_def)
  have general:
    "(truthy (inlineData m) \<and> outputAudioContext c \<noteq> None \<and> analyser c \<noteq> None \<longrightarrow>
      startMessage (currentTime e) c m =
        (c\<lparr>nextStartTime := max (nextStartTime c) (currentTime e)\<rparr>, [AiSpeakingStart], Awaiting)
      \<and> (decoded e = Some b \<longrightarrow>
           snd (handleMessage e c m) =
             [AiSpeakingStart, SourceStart (max (nextStartTime c) (currentTime e)) (duration b)]
             @ (if interrupted m then [AiSpeakingStop] else [])
           \<and> nextStartTime (fst (handleMessage e c m)) =
               (if interrupted m then 0
                else max (nextStartTime c) (currentTime e) + duration b)))
   \<and> (\<not> (truthy (inlineData m) \<and> outputAudioContext c \<noteq> None \<and> analyser c \<noteq> None) \<longrightarrow>
        handleMessage e c m = handleInterrupted m (c, []))"
    by (auto simp add: handleMessage_def runMessage_def startMessage_def resumeMessage_def
      handleInterrupted_def Let_def
        split: prod.splits)
  show ?thesis
    using general example by blast
qed

theorem playback_schedule_witness:
  "truthy (inlineData audioMessage) \<and> outputAudioContext connectedClient \<noteq> None
   \<and> analyser connectedClient \<noteq> None
   \<and> decoded (chunkAt 0 12000) = Some \<lparr> bufferLength = 12000, sampleRate = 24000 \<rparr>
   \<and> startMessage 0 connectedClient audioMessage = (connectedClient, [AiSpeakingStart], Awaiting)
   \<and> snd (handleMessage (chunkAt 0 12000) connectedClient audioMessage) =
        [AiSpeakingStart, SourceStart 0 0.5]
   \<and> nextStartTime (fst (handleMessage (chunkAt 0 12000) connectedClient audioMessage)) = 0.5
   \<and> \<not> truthy (inlineData interruptedMessage)
   \<and> handleMessage (chunkAt 0 12000) connectedClient interruptedMessage
       = (connectedClient, [AiSpeakingStop])"
  using playback_schedule [of audioMessage connectedClient "chunkAt 0 12000"
      "\<lparr> bufferLength = 12000, sampleRate = 24000 \<rparr>"]
    playback_schedule [of interruptedMessage connectedClient "chunkAt 0 12000"]
  by (simp add: chunkAt_def audioMessage_def connectedClient_value truthy_def duration_def
      interruptedMessage_def handleInterrupted_def)

text \<open>
  C3, as stated, fails. A second payload arrives at clock 0.1 while the first
  buffer, scheduled at 0 for 0.5 s, is still pending (the clock is more than 0.1
  short of the cursor, the test of the ended listener), and the start callback
  is emitted again.
\<close>

theorem speaking_start_while_pending_counterexample:
  "currentTime (chunkAt 0.1 7200)
     < nextStartTime (fst (handleMessage (chunkAt 0 12000) connectedClient audioMessage)) - 0.1
   \<and> AiSpeakingStart \<in> set (snd (handleMessage (chunkAt 0.1 7200)
        (fst (handleMessage (chunkAt 0 12000) connectedClient audioMessage)) audioMessage))"
  by (simp add: handleMessage_def runMessage_def startMessage_def resumeMessage_def
      handleInterrupted_def Let_def
      chunkAt_def audioMessage_def connectedClient_value truthy_def duration_def)

text \<open>
  C3, amended. The handler emits the start callback exactly once, and first, for
  every message with a non-empty audio payload handled while the output context
  and the analyser exist, whether or not earlier buffers are still pending; for
  any other message it does not emit it.
\<close>

theorem speaking_start_every_payload:
  "(truthy (inlineData m) \<and> outputAudioContext c \<noteq> None \<and> analyser c \<noteq> None \<longrightarrow>
      hd (snd (handleMessage e c m)) = AiSpeakingStart
      \<and> count_list (snd (handleMessage e c m)) AiSpeakingStart = 1)
   \<and> (\<not> (truthy (inlineData m) \<and> outputAudioContext c \<noteq> None \<and> analyser c \<noteq> None) \<longrightarrow>
      AiSpeakingStart \<notin> set (snd (handleMessage e c m)))"
  by (auto simp add: handleMessage_def runMessage_def startMessage_def resumeMessage_def
      handleInterrupted_def Let_def
      split: option.splits prod.splits)

theorem speaking_start_every_payload_witness:
  "truthy (inlineData audioMessage)
   \<and> outputAudioContext (fst (handleMessage (chunkAt 0 12000) connectedClient audioMessage)) \<noteq> None
   \<and> analyser (fst (handleMessage (chunkAt 0 12000) connectedClient audioMessage)) \<noteq> None
   \<and> hd (snd (handleMessage (chunkAt 0.1 7200)
        (fst (handleMessage (chunkAt 0 12000) connectedClient audioMessage)) audioMessage))
       = AiSpeakingStart
   \<and> count_list (snd (handleMessage (chunkAt 0.1 7200)
        (fst (handleMessage (chunkAt 0 12000) connectedClient audioMessage)) audioMessage))
        AiSpeakingStart = 1
   \<and> \<not> truthy (inlineData interruptedMessage)
   \<and> AiSpeakingStart \<notin> set (snd (handleMessage (chunkAt 0.1 0) connectedClient interruptedMessage))"
  using speaking_start_every_payload [of audioMessage
      "fst (handleMessage (chunkAt 0 12000) connectedClient audioMessage)" "chunkAt 0.1 7200"]
    speaking_start_every_payload [of interruptedMessage connectedClient "chunkAt 0.1 0"]
  by (simp add: handleMessage_def runMessage_def startMessage_def resumeMessage_def
      handleInterrupted_def Let_def
      chunkAt_def audioMessage_def connectedClient_value truthy_def duration_def
      interruptedMessage_def)

text \<open>
  C5. For every inbound message that does not carry the interrupted flag, the
  cursor \<open>nextStartTime\<close> after the call is at least the cursor before it, and so
  it is over any sequence of such messages. (A message with the flag resets the
  cursor to 0, see C6.)
\<close>

theorem nextStartTime_monotone:
  "(\<not> interrupted m \<longrightarrow> nextStartTime c \<le> nextStartTime (fst (handleMessage e c m)))
   \<and> ((\<forall>em \<in> set ems. \<not> interrupted (snd em)) \<longrightarrow>
        nextStartTime c \<le> nextStartTime (fst (handleMessages ems c)))"
  using handleMessage_cursor [of m c e] handleMessages_monotone [of ems c]
  by blast

theorem nextStartTime_monotone_witness:
  "\<not> interrupted audioMessage
   \<and> nextStartTime (connectedClient\<lparr>nextStartTime := 2\<rparr>)
      \<le> nextStartTime (fst (handleMessage (chunkAt 1 7200)
            (connectedClient\<lparr>nextStartTime := 2\<rparr>) audioMessage))
   \<and> nextStartTime connectedClient
      \<le> nextStartTime (fst (handleMessages
            [(chunkAt 0 12000, audioMessage), (chunkAt 3 7200, audioMessage)] connectedClient))"
proof -
  have quiet: "\<not> interrupted audioMessage"
    by (simp add: audioMessage_def)
  have all_quiet:
    "\<forall>em \<in> set [(chunkAt 0 12000, audioMessage), (chunkAt 3 7200, audioMessage)].
       \<not> interrupted (snd em)"
    using quiet by simp
  show ?thesis
    using quiet all_quiet
      nextStartTime_monotone [of audioMessage "connectedClient\<lparr>nextStartTime := 2\<rparr>"
        "chunkAt 1 7200" "[(chunkAt 0 12000, audioMessage), (chunkAt 3 7200, audioMessage)]"]
      nextStartTime_monotone [of audioMessage connectedClient
        "chunkAt 1 7200" "[(chunkAt 0 12000, audioMessage), (chunkAt 3 7200, audioMessage)]"]
    by blast
qed

text \<open>
  C6, as stated, fails. A message that carries both a payload and the
  interrupted flag arrives on the connected client at clock 1. The part of the
  handler that runs with the message emits the start callback, raises the cursor
  to 1 and suspends at the decode: no reset and no stop callback yet. When the
  decode rejects, the call ends there: the cursor stays at 1 and the stop
  callback is never emitted.
\<close>

theorem interrupted_after_payload_counterexample:
  "interrupted payloadAndFlag
   \<and> startMessage 1 connectedClient payloadAndFlag
       = (connectedClient\<lparr>nextStartTime := 1\<rparr>, [AiSpeakingStart], Awaiting)
   \<and> runMessage (rejectedAt 1) connectedClient payloadAndFlag
       = (connectedClient\<lparr>nextStartTime := 1\<rparr>, [AiSpeakingStart], Rejected)
   \<and> nextStartTime (fst (handleMessage (rejectedAt 1) connectedClient payloadAndFlag)) = 1
   \<and> AiSpeakingStop \<notin> set (snd (handleMessage (rejectedAt 1) connectedClient payloadAndFlag))"
  by (simp add: handleMessage_def runMessage_def startMessage_def resumeMessage_def
      handleInterrupted_def Let_def
      connectedClient_value truthy_def rejectedAt_def payloadAndFlag_def)

text \<open>
  C6, amended. For every inbound message that carries the interrupted flag and
  whose audio block is not entered (no payload, an empty one, or no output
  context or analyser), the handler resets the cursor to 0 and emits the stop
  callback synchronously with the message, whatever the client state, and so
  whatever has been scheduled before. When the audio block is entered, the part
  that runs with the message only emits the start callback and suspends; the
  reset and the stop callback come at the end of the call, once the awaited
  decode has resolved.
\<close>

theorem interrupted_resets:
  "interrupted m \<Longrightarrow>
     (\<not> (truthy (inlineData m) \<and> outputAudioContext c \<noteq> None \<and> analyser c \<noteq> None) \<longrightarrow>
        startMessage (currentTime e) c m = (c\<lparr>nextStartTime := 0\<rparr>, [AiSpeakingStop], Returned)
        \<and> runMessage e c m = (c\<lparr>nextStartTime := 0\<rparr>, [AiSpeakingStop], Returned)
        \<and> handleMessage e c m = (c\<lparr>nextStartTime := 0\<rparr>, [AiSpeakingStop]))
     \<and> (truthy (inlineData m) \<and> outputAudioContext c \<noteq> None \<and> analyser c \<noteq> None
          \<and> decoded e = Some b \<longrightarrow>
        fst (snd (startMessage (currentTime e) c m)) = [AiSpeakingStart]
        \<and> snd (snd (startMessage (currentTime e) c m)) = Awaiting
        \<and> snd (snd (runMessage e c m)) = Returned
        \<and> nextStartTime (fst (handleMessage e c m)) = 0
        \<and> last (snd (handleMessage e c m)) = AiSpeakingStop)"
  by (auto simp add: handleMessage_def runMessage_def startMessage_def resumeMessage_def
      handleInterrupted_def Let_def
      split: prod.splits)

theorem interrupted_resets_witness:
  "interrupted interruptedMessage
   \<and> \<not> truthy (inlineData interruptedMessage)
   \<and> nextStartTime (fst (handleMessage (chunkAt 0.1 7200) connectedClient audioMessage)) = 0.4
   \<and> handleMessage (chunkAt 0.2 0)
        (fst (handleMessage (chunkAt 0.1 7200) connectedClient audioMessage)) interruptedMessage
      = (connectedClient, [AiSpeakingStop])
   \<and> interrupted payloadAndFlag
   \<and> truthy (inlineData payloadAndFlag)
   \<and> outputAudioContext connectedClient \<noteq> None \<and> analyser connectedClient \<noteq> None
   \<and> decoded (chunkAt 1 7200) = Some \<lparr> bufferLength = 7200, sampleRate = 24000 \<rparr>
   \<and> handleMessage (chunkAt 1 7200) connectedClient payloadAndFlag
      = (connectedClient, [AiSpeakingStart, SourceStart 1 0.3, AiSpeakingStop])"
  using interrupted_resets [of interruptedMessage
      "fst (handleMessage (chunkAt 0.1 7200) connectedClient audioMessage)" "chunkAt 0.2 0"]
    interrupted_resets [of payloadAndFlag connectedClient "chunkAt 1 7200"
      "\<lparr> bufferLength = 7200, sampleRate = 24000 \<rparr>"]
  by (simp add: handleMessage_def runMessage_def startMessage_def resumeMessage_def
      handleInterrupted_def Let_def
      chunkAt_def audioMessage_def connectedClient_value truthy_def duration_def
      interruptedMessage_def payloadAndFlag_def)

text \<open>
  C10. \<^verbatim>\<open>disconnect\<close> is idempotent. After one call the metering timer handle,
  the capture processor, the media-stream source, the microphone stream, both
  audio contexts, the current session and the session promise are all null; a
  second call makes no releasing call and leaves the state as it is. On the
  connected client the first call releases the six resources held.
\<close>

theorem disconnect_idempotent:
  "volumeInterval (fst (disconnect c)) = None
   \<and> processor (fst (disconnect c)) = None
   \<and> source (fst (disconnect c)) = None
   \<and> mediaStream (fst (disconnect c)) = None
   \<and> inputAudioContext (fst (disconnect c)) = None
   \<and> outputAudioContext (fst (disconnect c)) = None
   \<and> currentSession (fst (disconnect c)) = None
   \<and> sessionPromise (fst (disconnect c)) = None
   \<and> disconnect (fst (disconnect c)) = (fst (disconnect c), [])
   \<and> snd (disconnect connectedClient) =
       [ClearInterval 4, ProcessorDisconnect 8, SourceDisconnect 7, StopTracks 5,
        CloseContext 1, CloseContext 2]"
proof -
  have released: "snd (disconnect connectedClient) =
       [ClearInterval 4, ProcessorDisconnect 8, SourceDisconnect 7, StopTracks 5,
        CloseContext 1, CloseContext 2]"
    by (simp add: connectedClient_value disconnect_def)
  show ?thesis
    unfolding released by (simp add: disconnect_def split: option.splits)
qed


section \<open>Properties of the face tracker\<close>

text \<open>
  C1. For every blendshape key present in the current frame,
  \<^verbatim>\<open>getCalibratedBlendshapes\<close> returns \<open>max 0 (current - baseline[key]) * 1.5\<close> when
  a calibration baseline exists, with no upper clamp, and the raw current value
  when none exists; a key that the baseline does not hold reads as 0 there. A key
  absent from the current frame is absent from the result, and without a
  baseline the result is the current record itself.
\<close>

theorem calibrated_blendshapes:
  "(map_of (currentBlendshapes t) key = Some current \<longrightarrow>
      map_of (getCalibratedBlendshapes t) key =
        Some (if isCalibrated t
              then max 0 (current - orZero (neutralBlendshapes t) key) * 1.5
              else current))
   \<and> (map_of (currentBlendshapes t) key = None \<longrightarrow>
        map_of (getCalibratedBlendshapes t) key = None)
   \<and> (\<not> isCalibrated t \<longrightarrow> getCalibratedBlendshapes t = currentBlendshapes t)"
proof -
  have keys: "key \<in> set (map fst xs) \<longleftrightarrow> map_of xs key \<noteq> None" for xs :: numRecord
    by (simp add: map_of_eq_None_iff)
  show ?thesis
    using keys [of "currentBlendshapes t"]
    by (auto simp: getCalibratedBlendshapes_def map_of_fold_calibrateKey orZero_def)
qed

text \<open>At the calibrated tracker: a current 0.6 over a baseline 0.2 gives 0.6; a
  current 0.7 over a baseline 0 gives 1.05, above 1; a current 0.35 on a key
  that the baseline does not hold gives 0.525; a key absent from the frame is
  absent from the result. At the tracker that is not calibrated the result is
  the current record.\<close>

theorem calibrated_blendshapes_witness:
  "isCalibrated calibratedTracker
   \<and> map_of (currentBlendshapes calibratedTracker) ''jawOpen'' = Some 0.6
   \<and> map_of (neutralBlendshapes calibratedTracker) ''jawOpen'' = Some 0.2
   \<and> map_of (getCalibratedBlendshapes calibratedTracker) ''jawOpen'' = Some 0.6
   \<and> map_of (currentBlendshapes calibratedTracker) ''eyeBlinkLeft'' = Some 0.7
   \<and> map_of (getCalibratedBlendshapes calibratedTracker) ''eyeBlinkLeft'' = Some 1.05
   \<and> map_of (currentBlendshapes calibratedTracker) ''browInnerUp'' = Some 0.35
   \<and> map_of (neutralBlendshapes calibratedTracker) ''browInnerUp'' = None
   \<and> map_of (getCalibratedBlendshapes calibratedTracker) ''browInnerUp'' = Some 0.525
   \<and> map_of (currentBlendshapes calibratedTracker) ''mouthPucker'' = None
   \<and> map_of (getCalibratedBlendshapes calibratedTracker) ''mouthPucker'' = None
   \<and> \<not> isCalibrated trackedTracker
   \<and> getCalibratedBlendshapes trackedTracker = currentBlendshapes trackedTracker"
  using calibrated_blendshapes [of calibratedTracker "''jawOpen''" "0.6"]
    calibrated_blendshapes [of calibratedTracker "''eyeBlinkLeft''" "0.7"]
    calibrated_blendshapes [of calibratedTracker "''browInnerUp''" "0.35"]
    calibrated_blendshapes [of calibratedTracker "''mouthPucker''"]
    calibrated_blendshapes [of trackedTracker]
  by (simp add: calibratedTracker_value trackedTracker_value orZero_def)

text \<open>
  C4, as stated, fails. On a running tracker, a tick 10 ms after the last
  tracked frame is throttled: the tracking loop leaves the state as it is. The
  smoothing update still runs on that tick: the rotation moves from 0.7 to 0.91
  and the smoothed jaw value from 0.2 to 0.26.
\<close>

theorem smoothing_on_throttled_tick_counterexample:
  "isRunning trackedTracker \<and> faceLandmarker trackedTracker \<noteq> None
   \<and> video trackedTracker \<noteq> None
   \<and> perfNow throttledFrame - lastTrackingTime trackedTracker < FRAME_INTERVAL
   \<and> trackingLoop throttledFrame trackedTracker = trackedTracker
   \<and> vx (rotation trackedTracker) = 0.7
   \<and> vx (rotation (fst (predict throttledFrame trackedTracker))) = 0.91
   \<and> map_of (currentBlendshapes trackedTracker) ''jawOpen'' = Some 0.2
   \<and> map_of (currentBlendshapes (fst (predict throttledFrame trackedTracker))) ''jawOpen''
       = Some 0.26"
  by (simp add: trackedTracker_value throttledFrame_def predict_def trackingLoop_def frameAt_def
      FRAME_INTERVAL_def TRACKING_FPS_def updateSmoothing_def lerpVec_def lerp_def
      smoothKey_def orZero_def SMOOTHING_FACTOR_def Let_def)

text \<open>
  C4, amended. On every \<^verbatim>\<open>predict\<close> tick of a running tracker with a model and
  a video, the smoothing update is applied exactly once, after the tracking
  loop, both when the throttle lets the tick track a frame and when it makes
  the tracking loop a no-op; the call then asks for the next animation frame.
  When the tracker is not running, or has no model or no video, the tick
  changes nothing and asks for no further frame.
\<close>

theorem smoothing_every_tick:
  "(isRunning t \<and> faceLandmarker t \<noteq> None \<and> video t \<noteq> None \<longrightarrow>
      predict e t = (updateSmoothing (trackingLoop e t), True)
      \<and> (\<not> trackingDue e t \<longrightarrow> trackingLoop e t = t \<and> fst (predict e t) = updateSmoothing t)
      \<and> (trackingDue e t \<longrightarrow>
           trackingLoop e t =
             detectInto e (t\<lparr>lastVideoTime := videoCurrentTime e, lastTrackingTime := perfNow e\<rparr>)))
   \<and> (\<not> (isRunning t \<and> faceLandmarker t \<noteq> None \<and> video t \<noteq> None) \<longrightarrow>
        predict e t = (t, False))"
proof -
  have running: "isRunning (updateSmoothing (trackingLoop e t)) = isRunning t"
    by (simp add: updateSmoothing_def trackingLoop_def detectInto_def Let_def
        split: option.splits list.splits)
  show ?thesis
    using running
    by (auto simp: predict_def Let_def trackingDue_def trackingLoop_def)
qed

theorem smoothing_every_tick_witness:
  "isRunning trackedTracker \<and> faceLandmarker trackedTracker \<noteq> None
   \<and> video trackedTracker \<noteq> None
   \<and> \<not> trackingDue throttledFrame trackedTracker
   \<and> fst (predict throttledFrame trackedTracker) = updateSmoothing trackedTracker
   \<and> trackingDue secondFrame trackedTracker
   \<and> predict secondFrame trackedTracker =
       (updateSmoothing (trackingLoop secondFrame trackedTracker), True)
   \<and> lastTrackingTime (trackingLoop secondFrame trackedTracker) = 150
   \<and> \<not> isRunning newFaceTracker
   \<and> predict throttledFrame newFaceTracker = (newFaceTracker, False)"
proof -
  have closed: "\<not> trackingDue throttledFrame trackedTracker"
    by (simp add: trackedTracker_value trackingDue_def throttledFrame_def frameAt_def
        FRAME_INTERVAL_def TRACKING_FPS_def)
  have opened: "trackingDue secondFrame trackedTracker"
    by (simp add: trackedTracker_value trackingDue_def secondFrame_def frameAt_def
        FRAME_INTERVAL_def TRACKING_FPS_def)
  have guard: "isRunning trackedTracker \<and> faceLandmarker trackedTracker \<noteq> None
     \<and> video trackedTracker \<noteq> None"
    by (simp add: trackedTracker_value)
  have stopped: "\<not> isRunning newFaceTracker"
    by (simp add: newFaceTracker_def)
  have tracked: "lastTrackingTime (detectInto e t) = lastTrackingTime t" for e t
    by (simp add: detectInto_def Let_def split: option.splits list.splits)
  show ?thesis
    using closed opened guard stopped
      smoothing_every_tick [of trackedTracker throttledFrame]
      smoothing_every_tick [of trackedTracker secondFrame]
      smoothing_every_tick [of newFaceTracker throttledFrame]
    by (simp add: tracked secondFrame_def frameAt_def)
qed

text \<open>
  C7. \<^verbatim>\<open>calibrate\<close> on a tracker that is not running returns the state as it is:
  no field changes, so the neutral blendshapes, rotation and position are
  untouched. On every tracker reached from a new object by calls of
  \<^verbatim>\<open>start\<close>, the \<^verbatim>\<open>loadeddata\<close> listener, \<^verbatim>\<open>predict\<close>, \<^verbatim>\<open>calibrate\<close> and
  \<^verbatim>\<open>stop\<close>, the flag is false whenever the tracker is not running, and it remains
  false after the call.
\<close>

theorem calibrate_stopped_noop:
  "(\<not> isRunning t \<longrightarrow> calibrate t = t)
   \<and> (\<not> isRunning (run calls) \<longrightarrow>
        calibrate (run calls) = run calls \<and> \<not> isCalibrated (calibrate (run calls)))"
  using run_calibrated_running [of calls] by (auto simp: calibrate_def)

theorem calibrate_stopped_noop_witness:
  "\<not> isRunning (run [Start (Some 1) (Some 2) 3, LoadedData firstFrame, Calibrate, Stop])
   \<and> calibrate (run [Start (Some 1) (Some 2) 3, LoadedData firstFrame, Calibrate, Stop])
       = run [Start (Some 1) (Some 2) 3, LoadedData firstFrame, Calibrate, Stop]
   \<and> \<not> isCalibrated
        (calibrate (run [Start (Some 1) (Some 2) 3, LoadedData firstFrame, Calibrate, Stop]))"
proof -
  have stopped:
    "\<not> isRunning (run [Start (Some 1) (Some 2) 3, LoadedData firstFrame, Calibrate, Stop])"
    by (simp add: run_def stop_def Let_def)
  show ?thesis
    using stopped
      calibrate_stopped_noop [of
        "run [Start (Some 1) (Some 2) 3, LoadedData firstFrame, Calibrate, Stop]"
        "[Start (Some 1) (Some 2) 3, LoadedData firstFrame, Calibrate, Stop]"]
    by blast
qed

text \<open>
  C9. Starting at 0 with the constant target 1, \<open>n\<close> smoothing updates with the
  factor 0.7 give \<open>1 - 0.3 ^ n\<close>, which is at least 0.999 after 6 updates and
  after 10. The same holds for a rotation axis and for a blendshape key under
  ten calls of \<^verbatim>\<open>updateSmoothing\<close>.
\<close>

theorem smoothing_convergence:
  "(\<forall>n. ((\<lambda>state. lerp state 1 SMOOTHING_FACTOR) ^^ n) 0 = 1 - (3 / 10) ^ n)
   \<and> 0.999 \<le> ((\<lambda>state. lerp state 1 SMOOTHING_FACTOR) ^^ 6) 0
   \<and> 0.999 \<le> ((\<lambda>state. lerp state 1 SMOOTHING_FACTOR) ^^ 10) 0
   \<and> 0.999 \<le> vx (rotation ((updateSmoothing ^^ 10)
        (t\<lparr>rotation := \<lparr> vx = 0, vy = 0, vz = 0 \<rparr>,
           targetRotation := \<lparr> vx = 1, vy = 0, vz = 0 \<rparr>\<rparr>)))
   \<and> 0.999 \<le> orZero (currentBlendshapes ((updateSmoothing ^^ 10)
        (t\<lparr>currentBlendshapes := [], targetBlendshapes := [(''jawOpen'', 1)]\<rparr>))) ''jawOpen''"
proof -
  have six: "(0.999 :: real) \<le> 1 - (3 / 10) ^ 6" by (simp add: power_numeral_reduce)
  have ten: "(0.999 :: real) \<le> 1 - (3 / 10) ^ 10" by (simp add: power_numeral_reduce)
  have rot: "vx (rotation ((updateSmoothing ^^ 10)
        (t\<lparr>rotation := \<lparr> vx = 0, vy = 0, vz = 0 \<rparr>,
           targetRotation := \<lparr> vx = 1, vy = 0, vz = 0 \<rparr>\<rparr>))) = 1 - (3 / 10) ^ 10"
    by (simp add: updateSmoothing_iterated_rotation lerp_iterated del: power_numeral)
  have shape: "orZero (currentBlendshapes ((updateSmoothing ^^ 10)
        (t\<lparr>currentBlendshapes := [], targetBlendshapes := [(''jawOpen'', 1)]\<rparr>))) ''jawOpen''
      = 1 - (3 / 10) ^ 10"
    using updateSmoothing_iterated_shape [of
        "t\<lparr>currentBlendshapes := [], targetBlendshapes := [(''jawOpen'', 1)]\<rparr>" "''jawOpen''" 10]
    by (simp add: lerp_iterated orZero_def)
  show ?thesis
    unfolding rot shape using six ten by (simp only: lerp_iterated) simp
qed


section \<open>Properties of the animation composer\<close>

text \<open>
  C8, as stated, fails. With the camera on and the AI silent, a running tracker
  that has seen no face yet has no blendshape key. The whole expression block is
  skipped on such a frame, so nothing sets \<open>aa\<close>: it keeps the value that the
  expression manager holds, here 0.5, where the rule for \<open>happy \<le> 0.2\<close> gives
  \<open>min 1 (0 * 1.5) = 0\<close>.
\<close>

theorem jaw_not_set_without_blendshapes_counterexample:
  "cameraActive trackingFrame \<and> \<not> currentIsAiTalking trackingFrame
   \<and> isRunning facelessTracker
   \<and> getCalibratedBlendshapes facelessTracker = []
   \<and> animate trackingFrame facelessTracker = []
   \<and> valuesSet ''aa'' (animate trackingFrame facelessTracker) = []
   \<and> getValue trackingFrame ''aa'' = 0.5
   \<and> min 1 (orZero (getCalibratedBlendshapes facelessTracker) ''jawOpen'' * 1.5) = (0 :: real)"
proof -
  have none: "getCalibratedBlendshapes facelessTracker = []"
    using facelessTracker_shapes by (simp add: getCalibratedBlendshapes_def)
  show ?thesis
    using facelessTracker_shapes
    by (simp add: none animate_def trackingMode_def lipSync_def valuesSet_def trackingFrame_def
        orZero_def)
qed

text \<open>
  C8, amended. In tracking mode with the AI not speaking, a frame whose
  calibrated blendshapes \<open>s\<close> have at least one key sets the expression \<open>aa\<close>
  once: to 0 when \<open>happy > 0.2\<close>, whatever the jaw input, and to
  \<open>min 1 (jawOpen * 1.5)\<close> otherwise, where \<open>happy\<close> is \<open>min 1 (smileRaw * 1.5)\<close>
  and \<open>smileRaw\<close> the mean of the two smile scores. A frame whose \<open>s\<close> has no key
  does not set \<open>aa\<close>.
\<close>

theorem jaw_closed_when_happy:
  "cameraActive f \<Longrightarrow> \<not> currentIsAiTalking f \<Longrightarrow>
   s = getCalibratedBlendshapes tracker \<Longrightarrow>
   happy = min 1 ((orZero s ''mouthSmileLeft'' + orZero s ''mouthSmileRight'') / 2 * 1.5) \<Longrightarrow>
   valuesSet ''aa'' (animate f tracker) =
     (if s = [] then []
      else [if happy > 0.2 then 0 else min 1 (orZero s ''jawOpen'' * 1.5)])"
proof -
  assume cam: "cameraActive f" and quiet: "\<not> currentIsAiTalking f"
    and s: "s = getCalibratedBlendshapes tracker"
    and happy: "happy = min 1 ((orZero s ''mouthSmileLeft'' + orZero s ''mouthSmileRight'') / 2 * 1.5)"
  have "valuesSet ''aa'' (trackingMode f s) =
      (if s = [] then []
       else [if happy > 0.2 then 0 else min 1 (orZero s ''jawOpen'' * 1.5)])"
    unfolding trackingMode_def Let_def happy [symmetric]
    using quiet by (simp add: valuesSet_def)
  moreover have "lipSync f = []"
    using cam quiet by (simp add: lipSync_def)
  ultimately show ?thesis
    using cam by (simp add: animate_def s)
qed

text \<open>With both smile scores at 0.2, \<open>happy\<close> is 0.3; a jaw input of 0.9 then
  gives \<open>aa = 0\<close>. Without a smile, a jaw input of 0.2 gives 0.3. Without any
  key, \<open>aa\<close> is not set.\<close>

theorem jaw_closed_when_happy_witness:
  "cameraActive trackingFrame \<and> \<not> currentIsAiTalking trackingFrame
   \<and> getCalibratedBlendshapes smilingTracker \<noteq> []
   \<and> min 1 ((orZero (getCalibratedBlendshapes smilingTracker) ''mouthSmileLeft''
              + orZero (getCalibratedBlendshapes smilingTracker) ''mouthSmileRight'') / 2 * 1.5)
       = (0.3 :: real)
   \<and> orZero (getCalibratedBlendshapes smilingTracker) ''jawOpen'' = 0.9
   \<and> valuesSet ''aa'' (animate trackingFrame smilingTracker) = [0]
   \<and> orZero (getCalibratedBlendshapes trackedTracker) ''jawOpen'' = 0.2
   \<and> valuesSet ''aa'' (animate trackingFrame trackedTracker) = [0.3]
   \<and> getCalibratedBlendshapes facelessTracker = []
   \<and> valuesSet ''aa'' (animate trackingFrame facelessTracker) = []"
proof -
  have smiling: "getCalibratedBlendshapes smilingTracker =
      [(''mouthSmileLeft'', 0.2), (''mouthSmileRight'', 0.2), (''jawOpen'', 0.9)]"
    using smilingTracker_shapes by (simp add: getCalibratedBlendshapes_def)
  have neutral: "getCalibratedBlendshapes trackedTracker =
      [(''jawOpen'', 0.2), (''eyeBlinkLeft'', 0)]"
    by (simp add: getCalibratedBlendshapes_def trackedTracker_value)
  have faceless: "getCalibratedBlendshapes facelessTracker = []"
    using facelessTracker_shapes by (simp add: getCalibratedBlendshapes_def)
  have frame: "cameraActive trackingFrame \<and> \<not> currentIsAiTalking trackingFrame"
    by (simp add: trackingFrame_def)
  show ?thesis
    using frame
      jaw_closed_when_happy [of trackingFrame
        "getCalibratedBlendshapes smilingTracker" smilingTracker "0.3"]
      jaw_closed_when_happy [of trackingFrame
        "getCalibratedBlendshapes trackedTracker" trackedTracker "0"]
      jaw_closed_when_happy [of trackingFrame
        "getCalibratedBlendshapes facelessTracker" facelessTracker "0"]
    by (simp add: smiling neutral faceless orZero_def)
qed

end
